theory Spec2Isabelle
  imports Complex_Main
begin

section \<open>JavaScript numbers\<close>

text \<open>
  The chart components compute with JavaScript numbers. They are modelled as
  IEEE doubles without rounding: a finite number is an exact real, and the three
  special values \<open>+Infinity\<close>, \<open>-Infinity\<close> and \<open>NaN\<close> are kept, because the code
  relies on them (the \<open>Infinity\<close> sentinels of the range scan, the comparisons
  with \<open>NaN\<close> that are all false, division by zero). The sign of zero is not
  modelled: every zero divisor that this code can produce is \<open>+0\<close>.
\<close>

datatype jsnum = Fin real | PInf | NInf | NaN

fun js_neg :: "jsnum \<Rightarrow> jsnum" where
  "js_neg (Fin a) = Fin (- a)"
| "js_neg PInf = NInf"
| "js_neg NInf = PInf"
| "js_neg NaN = NaN"

fun js_add :: "jsnum \<Rightarrow> jsnum \<Rightarrow> jsnum" where
  "js_add NaN _ = NaN"
| "js_add _ NaN = NaN"
| "js_add (Fin a) (Fin b) = Fin (a + b)"
| "js_add PInf NInf = NaN"
| "js_add NInf PInf = NaN"
| "js_add PInf _ = PInf"
| "js_add _ PInf = PInf"
| "js_add NInf _ = NInf"
| "js_add _ NInf = NInf"

definition js_sub :: "jsnum \<Rightarrow> jsnum \<Rightarrow> jsnum" where
  "js_sub a b = js_add a (js_neg b)"

text \<open>The sign of a number that is not \<open>NaN\<close>: \<open>-1\<close>, \<open>0\<close> or \<open>1\<close>.\<close>

fun js_sign :: "jsnum \<Rightarrow> int" where
  "js_sign (Fin a) = (if a < 0 then - 1 else if a = 0 then 0 else 1)"
| "js_sign PInf = 1"
| "js_sign NInf = - 1"
| "js_sign NaN = 0"

definition inf_of_sign :: "int \<Rightarrow> jsnum" where
  "inf_of_sign s = (if s < 0 then NInf else PInf)"

fun js_mul :: "jsnum \<Rightarrow> jsnum \<Rightarrow> jsnum" where
  "js_mul NaN _ = NaN"
| "js_mul _ NaN = NaN"
| "js_mul (Fin a) (Fin b) = Fin (a * b)"
| "js_mul a b =
     (if js_sign a = 0 \<or> js_sign b = 0 then NaN else inf_of_sign (js_sign a * js_sign b))"

fun js_div :: "jsnum \<Rightarrow> jsnum \<Rightarrow> jsnum" where
  "js_div NaN _ = NaN"
| "js_div _ NaN = NaN"
| "js_div (Fin a) (Fin b) =
     (if b \<noteq> 0 then Fin (a / b)
      else if a = 0 then NaN
      else if 0 < a then PInf else NInf)"
| "js_div (Fin a) _ = Fin 0"
| "js_div a (Fin b) = (if b < 0 then js_neg a else a)"
| "js_div _ _ = NaN"

fun js_le :: "jsnum \<Rightarrow> jsnum \<Rightarrow> bool" where
  "js_le NaN _ = False"
| "js_le _ NaN = False"
| "js_le (Fin a) (Fin b) = (a \<le> b)"
| "js_le NInf _ = True"
| "js_le _ PInf = True"
| "js_le _ _ = False"

fun js_lt :: "jsnum \<Rightarrow> jsnum \<Rightarrow> bool" where
  "js_lt NaN _ = False"
| "js_lt _ NaN = False"
| "js_lt (Fin a) (Fin b) = (a < b)"
| "js_lt PInf _ = False"
| "js_lt _ NInf = False"
| "js_lt _ _ = True"

definition js_ge :: "jsnum \<Rightarrow> jsnum \<Rightarrow> bool" where
  "js_ge a b = js_le b a"

definition js_gt :: "jsnum \<Rightarrow> jsnum \<Rightarrow> bool" where
  "js_gt a b = js_lt b a"

text \<open>\<open>Math.min\<close> and \<open>Math.max\<close> of two arguments: \<open>NaN\<close> if either is.\<close>

fun Math_min :: "jsnum \<Rightarrow> jsnum \<Rightarrow> jsnum" where
  "Math_min NaN _ = NaN"
| "Math_min _ NaN = NaN"
| "Math_min a b = (if js_le a b then a else b)"

fun Math_max :: "jsnum \<Rightarrow> jsnum \<Rightarrow> jsnum" where
  "Math_max NaN _ = NaN"
| "Math_max _ NaN = NaN"
| "Math_max a b = (if js_le a b then b else a)"

fun Math_floor :: "jsnum \<Rightarrow> jsnum" where
  "Math_floor (Fin a) = Fin (of_int \<lfloor>a\<rfloor>)"
| "Math_floor a = a"

fun Math_ceil :: "jsnum \<Rightarrow> jsnum" where
  "Math_ceil (Fin a) = Fin (of_int \<lceil>a\<rceil>)"
| "Math_ceil a = a"

fun Math_log10 :: "jsnum \<Rightarrow> jsnum" where
  "Math_log10 (Fin a) =
     (if a < 0 then NaN else if a = 0 then NInf else Fin (log 10 a))"
| "Math_log10 PInf = PInf"
| "Math_log10 NInf = NaN"
| "Math_log10 NaN = NaN"

text \<open>\<open>Math.pow(10, y)\<close>, the only use of \<open>Math.pow\<close> in the code.\<close>

fun Math_pow10 :: "jsnum \<Rightarrow> jsnum" where
  "Math_pow10 (Fin y) = Fin (10 powr y)"
| "Math_pow10 PInf = PInf"
| "Math_pow10 NInf = Fin 0"
| "Math_pow10 NaN = NaN"

text \<open>A number is falsy when it is zero or \<open>NaN\<close>.\<close>

fun js_truthy :: "jsnum \<Rightarrow> bool" where
  "js_truthy (Fin a) = (a \<noteq> 0)"
| "js_truthy NaN = False"
| "js_truthy _ = True"

text \<open>\<open>x || d\<close> for an optional number \<open>x\<close> (\<open>None\<close> is \<open>undefined\<close>).\<close>

fun js_or :: "jsnum option \<Rightarrow> jsnum \<Rightarrow> jsnum" where
  "js_or None d = d"
| "js_or (Some x) d = (if js_truthy x then x else d)"

section \<open>The line chart: nice steps and ticks\<close>

text \<open>
  \<^verbatim>\<open>
  function getNiceStepSize(range: number, targetSteps: number): number {
      const rawStep = range / targetSteps
      const magnitude = Math.pow(10, Math.floor(Math.log10(rawStep)))
      const normalizedStep = rawStep / magnitude
      const niceStep = normalizedStep <= 1 ? 1
          : normalizedStep <= 2 ? 2
              : normalizedStep <= 5 ? 5
                  : 10
      return niceStep * magnitude
  }
  \<close>
  Each local constant is a definition of its own, so that the intermediate values
  can be named.
\<close>

definition rawStep :: "jsnum \<Rightarrow> jsnum \<Rightarrow> jsnum" where
  "rawStep rng targetSteps = js_div rng targetSteps"

definition magnitude :: "jsnum \<Rightarrow> jsnum" where
  "magnitude raw = Math_pow10 (Math_floor (Math_log10 raw))"

definition normalizedStep :: "jsnum \<Rightarrow> jsnum" where
  "normalizedStep raw = js_div raw (magnitude raw)"

definition niceStep :: "jsnum \<Rightarrow> jsnum" where
  "niceStep normalized =
     (if js_le normalized (Fin 1) then Fin 1
      else if js_le normalized (Fin 2) then Fin 2
      else if js_le normalized (Fin 5) then Fin 5
      else Fin 10)"

definition getNiceStepSize :: "jsnum \<Rightarrow> jsnum \<Rightarrow> jsnum" where
  "getNiceStepSize rng targetSteps =
     (let raw = rawStep rng targetSteps
      in js_mul (niceStep (normalizedStep raw)) (magnitude raw))"

text \<open>
  \<^verbatim>\<open>
  const calculateYAxisTicks = (domain: [number, number], tickCount: number, dataMax: number) => {
      const [min, max] = domain
      if (tickCount <= 1) return [min]
      const step = getNiceStepSize(max - min, tickCount - 1)
      const niceMin = Math.floor(min / step) * step
      const ticks: number[] = []
      let currentTick = niceMin
      while (currentTick <= max && ticks.length < tickCount * 2) {
          if (currentTick >= min) ticks.push(currentTick)
          currentTick += step
      }
      const lastTick = ticks[ticks.length - 1]
      if (dataMax - lastTick > 0 && dataMax - lastTick < step * 0.1) {
          ticks.push(lastTick + step)
      }
      return ticks
  }
  \<close>
  The \<open>while\<close> loop is \<open>tickLoop\<close>. Nothing in the loop itself makes it end
  (a step that is not positive below \<open>min\<close> repeats for ever), so it is a partial
  function and \<open>None\<close> stands for a loop that does not return.
\<close>

partial_function (option) tickLoop ::
  "jsnum \<Rightarrow> jsnum \<Rightarrow> jsnum \<Rightarrow> jsnum \<Rightarrow> jsnum \<Rightarrow> jsnum list \<Rightarrow> jsnum list option" where
  "tickLoop mn mx tickCount step currentTick ticks =
     (if js_le currentTick mx \<and>
         js_lt (Fin (real (length ticks))) (js_mul tickCount (Fin 2))
      then tickLoop mn mx tickCount step (js_add currentTick step)
             (if js_ge currentTick mn then ticks @ [currentTick] else ticks)
      else Some ticks)"

text \<open>
  \<open>ticks[ticks.length - 1]\<close> of an empty array is \<open>undefined\<close>, which the
  subtraction \<open>dataMax - lastTick\<close> converts to \<open>NaN\<close>.
\<close>

definition lastTick :: "jsnum list \<Rightarrow> jsnum" where
  "lastTick ticks = (if ticks = [] then NaN else last ticks)"

definition extraTick :: "jsnum \<Rightarrow> jsnum \<Rightarrow> jsnum list \<Rightarrow> jsnum list" where
  "extraTick step dataMax ticks =
     (if js_gt (js_sub dataMax (lastTick ticks)) (Fin 0) \<and>
         js_lt (js_sub dataMax (lastTick ticks)) (js_mul step (Fin 0.1))
      then ticks @ [js_add (lastTick ticks) step]
      else ticks)"

definition calculateYAxisTicks :: "jsnum \<times> jsnum \<Rightarrow> jsnum \<Rightarrow> jsnum \<Rightarrow> jsnum list option" where
  "calculateYAxisTicks domain tickCount dataMax =
     (let mn = fst domain; mx = snd domain
      in if js_le tickCount (Fin 1) then Some [mn]
         else
           let step = getNiceStepSize (js_sub mx mn) (js_sub tickCount (Fin 1));
               niceMin = js_mul (Math_floor (js_div mn step)) step
           in map_option (extraTick step dataMax) (tickLoop mn mx tickCount step niceMin []))"

section \<open>The line chart: the Y-axis domain\<close>

text \<open>
  A data point is a \<open>Record<string, string | number>\<close>: a map from keys to
  strings or numbers.
\<close>

datatype jsval = Num jsnum | Str string

type_synonym point = "string \<rightharpoonup> jsval"

text \<open>\<open>typeof item[key] === 'number' ? item[key] as number : 0\<close>\<close>

definition numberOrZero :: "jsval option \<Rightarrow> jsnum" where
  "numberOrZero v = (case v of Some (Num n) \<Rightarrow> n | _ \<Rightarrow> Fin 0)"

text \<open>
  \<^verbatim>\<open>
  const calculateNiceYDomain = (data, dataKeys: string[], padding = 0.1) => {
      let min = Infinity, max = -Infinity
      data.forEach(item => {
          dataKeys.forEach(key => {
              const value = typeof item[key] === 'number' ? item[key] as number : 0
              min = Math.min(min, value)
              max = Math.max(max, value)
          })
      })
      if (min === Infinity || max === -Infinity) return [0, 100]
      const range = max - min
      const paddedMin = Math.max(0, min - (range * padding))
      const paddedMax = max + (range * padding)
      const getRoundingFactor = (value: number) =>
          value <= 100 ? 10 : value <= 1000 ? 100 : value <= 10000 ? 500
              : value <= 50000 ? 1000 : 5000
      const niceMin = Math.floor(paddedMin / getRoundingFactor(paddedMin)) * getRoundingFactor(paddedMin)
      const niceMax = Math.ceil(paddedMax / getRoundingFactor(paddedMax)) * getRoundingFactor(paddedMax)
      return [niceMin, niceMax]
  }
  \<close>
  \<open>scanRange\<close> is the pair of nested \<open>forEach\<close> loops, with the two variables
  \<open>min\<close> and \<open>max\<close> as its state. An absent \<open>padding\<close> argument is \<open>None\<close>.
\<close>

text \<open>
  The values that the scan visits, in its order; the component computes the same
  list as \<open>data.flatMap(item => dataKeys.map(key => ...))\<close>.
\<close>

definition scannedValues :: "point list \<Rightarrow> string list \<Rightarrow> jsnum list" where
  "scannedValues data dataKeys =
     concat (map (\<lambda>item. map (\<lambda>key. numberOrZero (item key)) dataKeys) data)"

definition scanRange :: "point list \<Rightarrow> string list \<Rightarrow> jsnum \<times> jsnum" where
  "scanRange data dataKeys =
     fold (\<lambda>item. fold (\<lambda>key (mn, mx).
             let v = numberOrZero (item key) in (Math_min mn v, Math_max mx v)) dataKeys)
       data (PInf, NInf)"

definition paddedMin :: "jsnum \<Rightarrow> jsnum \<Rightarrow> jsnum \<Rightarrow> jsnum" where
  "paddedMin mn mx padding = Math_max (Fin 0) (js_sub mn (js_mul (js_sub mx mn) padding))"

definition paddedMax :: "jsnum \<Rightarrow> jsnum \<Rightarrow> jsnum \<Rightarrow> jsnum" where
  "paddedMax mn mx padding = js_add mx (js_mul (js_sub mx mn) padding)"

definition getRoundingFactor :: "jsnum \<Rightarrow> jsnum" where
  "getRoundingFactor v =
     (if js_le v (Fin 100) then Fin 10
      else if js_le v (Fin 1000) then Fin 100
      else if js_le v (Fin 10000) then Fin 500
      else if js_le v (Fin 50000) then Fin 1000
      else Fin 5000)"

definition niceDomain :: "jsnum \<Rightarrow> jsnum \<Rightarrow> jsnum \<Rightarrow> jsnum \<times> jsnum" where
  "niceDomain mn mx padding =
     (let pmin = paddedMin mn mx padding;
          pmax = paddedMax mn mx padding;
          niceMin = js_mul (Math_floor (js_div pmin (getRoundingFactor pmin))) (getRoundingFactor pmin);
          niceMax = js_mul (Math_ceil (js_div pmax (getRoundingFactor pmax))) (getRoundingFactor pmax)
      in (niceMin, niceMax))"

definition calculateNiceYDomain ::
  "point list \<Rightarrow> string list \<Rightarrow> jsnum option \<Rightarrow> jsnum \<times> jsnum" where
  "calculateNiceYDomain data dataKeys padding_arg =
     (let padding = (case padding_arg of None \<Rightarrow> Fin 0.1 | Some p \<Rightarrow> p)
      in case scanRange data dataKeys of (mn, mx) \<Rightarrow>
           if mn = PInf \<or> mx = NInf then (Fin 0, Fin 100)
           else niceDomain mn mx padding)"

section \<open>The line chart component: resolving the configuration\<close>

text \<open>
  \<^verbatim>\<open>
  const yDomain = useMemo(() => {
      if (yAxisConfig?.domain && yAxisConfig.domain !== "auto") {
          return yAxisConfig.domain
      }
      const dataKeys = chartLines.map(line => line.dataKey)
      const padding = yAxisConfig?.padding || 0.15
      return calculateNiceYDomain(data, dataKeys, padding)
  }, [data, chartLines, yAxisConfig])

  const yAxisTicks = useMemo(() => {
      const tickCount = yAxisConfig?.tickCount || 6
      const dataKeys = chartLines.map(line => line.dataKey)
      const dataMax = Math.max(...data.flatMap(item =>
          dataKeys.map(key => typeof item[key] === 'number' ? item[key] as number : 0)
      ))
      return calculateYAxisTicks(yDomain as [number, number], tickCount, dataMax)
  }, [yDomain, yAxisConfig, data, chartLines])
  \<close>
  The optional \<open>yAxisConfig\<close> is an \<open>option\<close>, and so is each of its optional
  fields. \<open>dataKeys\<close> is the list of the data keys of \<open>chartLines\<close>.
\<close>

datatype domainConfig = Auto | Explicit "jsnum \<times> jsnum"

record yAxisConfig =
  cfg_domain :: "domainConfig option"
  cfg_padding :: "jsnum option"
  cfg_tickCount :: "jsnum option"

definition resolvedPadding :: "yAxisConfig option \<Rightarrow> jsnum" where
  "resolvedPadding yAxisConfig = js_or (Option.bind yAxisConfig cfg_padding) (Fin 0.15)"

definition resolvedTickCount :: "yAxisConfig option \<Rightarrow> jsnum" where
  "resolvedTickCount yAxisConfig = js_or (Option.bind yAxisConfig cfg_tickCount) (Fin 6)"

definition yDomain :: "yAxisConfig option \<Rightarrow> point list \<Rightarrow> string list \<Rightarrow> jsnum \<times> jsnum" where
  "yDomain yAxisConfig data dataKeys =
     (case Option.bind yAxisConfig cfg_domain of
        Some (Explicit d) \<Rightarrow> d
      | _ \<Rightarrow> calculateNiceYDomain data dataKeys (Some (resolvedPadding yAxisConfig)))"

text \<open>\<open>Math.max\<close> of a spread list: \<open>-Infinity\<close> for no argument.\<close>

definition Math_max_list :: "jsnum list \<Rightarrow> jsnum" where
  "Math_max_list xs = fold (\<lambda>x acc. Math_max acc x) xs NInf"

definition yAxisTicks :: "yAxisConfig option \<Rightarrow> point list \<Rightarrow> string list \<Rightarrow> jsnum list option" where
  "yAxisTicks yAxisConfig data dataKeys =
     (let tickCount = resolvedTickCount yAxisConfig;
          dataMax = Math_max_list (scannedValues data dataKeys)
      in calculateYAxisTicks (yDomain yAxisConfig data dataKeys) tickCount dataMax)"

section \<open>The area chart: percentage normalization\<close>

text \<open>
  \<^verbatim>\<open>
  const normalizedData = useMemo(() => {
      if (variant !== 'stacked-expanded') return data
      return data.map(item => {
          const newItem = { ...item }
          const dataKeys = chartAreas.map(a => a.dataKey)
          const total = dataKeys.reduce((sum, key) => sum + (Number(item[key]) || 0), 0)
          if (total > 0) {
              dataKeys.forEach(key => {
                  newItem[key] = ((Number(item[key]) || 0) / total) * 100
              })
          }
          return newItem
      })
  }, [data, variant, chartAreas])
  \<close>
  \<open>Number\<close> applied to a string is the language's own string-to-number
  conversion; it is the parameter \<open>str2num\<close> of the model. \<open>Number(undefined)\<close> is
  \<open>NaN\<close>. \<open>dataKeys\<close> is the list of the data keys of \<open>chartAreas\<close>.
\<close>

datatype AreaChartVariant =
  Default | Linear | Step | Stacked | StackedExpanded | Gradient | Legend | Interactive

definition Number :: "(string \<Rightarrow> jsnum) \<Rightarrow> jsval option \<Rightarrow> jsnum" where
  "Number str2num v =
     (case v of None \<Rightarrow> NaN | Some (Num n) \<Rightarrow> n | Some (Str s) \<Rightarrow> str2num s)"

definition numberOr0 :: "(string \<Rightarrow> jsnum) \<Rightarrow> jsval option \<Rightarrow> jsnum" where
  "numberOr0 str2num v = js_or (Some (Number str2num v)) (Fin 0)"

definition total :: "(string \<Rightarrow> jsnum) \<Rightarrow> point \<Rightarrow> string list \<Rightarrow> jsnum" where
  "total str2num item dataKeys =
     foldl (\<lambda>sum key. js_add sum (numberOr0 str2num (item key))) (Fin 0) dataKeys"

definition normalizeItem :: "(string \<Rightarrow> jsnum) \<Rightarrow> string list \<Rightarrow> point \<Rightarrow> point" where
  "normalizeItem str2num dataKeys item =
     (let tot = total str2num item dataKeys
      in if js_gt tot (Fin 0)
         then fold (\<lambda>key newItem.
                 newItem(key \<mapsto> Num (js_mul (js_div (numberOr0 str2num (item key)) tot) (Fin 100))))
               dataKeys item
         else item)"

definition normalizedData ::
  "(string \<Rightarrow> jsnum) \<Rightarrow> AreaChartVariant \<Rightarrow> point list \<Rightarrow> string list \<Rightarrow> point list" where
  "normalizedData str2num variant data dataKeys =
     (if variant \<noteq> StackedExpanded then data
      else map (normalizeItem str2num dataKeys) data)"

section \<open>The invariant of the tick loop\<close>


section \<open>The percentage normalizer, as specified\<close>

text \<open>
  The specification speaks of finite numbers. \<open>valueAt\<close> is the finite number that
  the code reads at a key (\<open>Number(item[key]) || 0\<close>), and \<open>finiteAt\<close> says that
  every value read at the given keys is finite.
\<close>

fun fin_val :: "jsnum \<Rightarrow> real" where
  "fin_val (Fin v) = v"
| "fin_val _ = 0"

definition valueAt :: "(string \<Rightarrow> jsnum) \<Rightarrow> point \<Rightarrow> string \<Rightarrow> real" where
  "valueAt str2num item key = fin_val (numberOr0 str2num (item key))"

definition finiteAt :: "(string \<Rightarrow> jsnum) \<Rightarrow> string list \<Rightarrow> point \<Rightarrow> bool" where
  "finiteAt str2num dataKeys item \<longleftrightarrow>
     (\<forall>key\<in>set dataKeys. \<exists>v. numberOr0 str2num (item key) = Fin v)"

text \<open>
  The normalizer in the words of the specification: the total of a point is the
  sum of its values at the given keys; if the total is positive, the value at
  each of the keys becomes \<open>value / total * 100\<close> and the other entries stay;
  if the total is zero the point is left as it is. The specification is silent
  about a negative total; the code leaves the point as it is then, too.
\<close>

definition normalizeToPercentage_spec :: "(string \<Rightarrow> jsnum) \<Rightarrow> string list \<Rightarrow> point \<Rightarrow> point" where
  "normalizeToPercentage_spec str2num dataKeys item =
     (let tot = (\<Sum>key\<leftarrow>dataKeys. valueAt str2num item key)
      in if 0 < tot
         then (\<lambda>key. if key \<in> set dataKeys
                      then Some (Num (Fin (valueAt str2num item key / tot * 100)))
                      else item key)
         else item)"

section \<open>Facts about the number model\<close>

lemma js_sub_Fin [simp]: "js_sub (Fin a) (Fin b) = Fin (a - b)"
  by (simp add: js_sub_def)

lemma js_ge_Fin [simp]: "js_ge (Fin a) (Fin b) = (b \<le> a)"
  by (simp add: js_ge_def)

lemma js_gt_Fin [simp]: "js_gt (Fin a) (Fin b) = (b < a)"
  by (simp add: js_gt_def)

lemma powr_floor_log_eq:
  fixes x :: real
  assumes "10 ^ k \<le> x" and "x < 10 ^ Suc k"
  shows "(10::real) powr (of_int \<lfloor>log 10 x\<rfloor>) = 10 ^ k"
proof -
  have "(0::real) < 10 ^ k"
    by simp
  then have pos: "0 < x"
    using assms(1) by linarith
  have "\<lfloor>log 10 x\<rfloor> = int k"
    using assms pos
    by (simp add: floor_log_eq_powr_iff powr_realpow powr_add)
  then show ?thesis
    by (simp add: powr_realpow)
qed

lemma magnitude_between:
  fixes x :: real
  assumes "10 ^ k \<le> x" and "x < 10 ^ Suc k"
  shows "magnitude (Fin x) = Fin (10 ^ k)"
proof -
  have "(0::real) < 10 ^ k"
    by simp
  then have "0 < x"
    using assms(1) by linarith
  then show ?thesis
    using powr_floor_log_eq [OF assms] by (simp add: magnitude_def)
qed

section \<open>The tick generator on finite numbers\<close>







lemma js_sub_NaN [simp]: "js_sub a NaN = NaN"
  by (cases a) (simp_all add: js_sub_def)

lemma js_mul_NaN [simp]: "js_mul a NaN = NaN"
  by (cases a) simp_all

lemma js_div_NaN [simp]: "js_div a NaN = NaN"
  by (cases a) simp_all




lemma extraTick_Nil [simp]: "extraTick step dm [] = []"
  by (simp add: extraTick_def lastTick_def js_gt_def)

lemma tickLoop_NaN [simp]: "tickLoop mn mx tc step NaN ticks = Some ticks"
  by (subst tickLoop.simps) simp














lemma tickLoop_continue:
  assumes "js_le cur mx" and "js_lt (Fin (real (length ticks))) (js_mul tc (Fin 2))"
  shows "tickLoop mn mx tc step cur ticks =
         tickLoop mn mx tc step (js_add cur step) (if js_ge cur mn then ticks @ [cur] else ticks)"
  using assms by (subst tickLoop.simps) simp

lemma tickLoop_exit:
  assumes "\<not> (js_le cur mx \<and> js_lt (Fin (real (length ticks))) (js_mul tc (Fin 2)))"
  shows "tickLoop mn mx tc step cur ticks = Some ticks"
  using assms by (subst tickLoop.simps) auto




lemma step_100_5: "getNiceStepSize (Fin 100) (Fin 5) = Fin 20"
proof -
  have "magnitude (Fin 20) = Fin 10"
    using magnitude_between [of 1 20] by simp
  then show ?thesis
    by (simp add: getNiceStepSize_def rawStep_def normalizedStep_def niceStep_def)
qed

lemma calculateYAxisTicks_0_100_6:
  "calculateYAxisTicks (Fin 0, Fin 100) (Fin 6) (Fin 97) = Some [Fin 0, Fin 20, Fin 40, Fin 60, Fin 80, Fin 100]"
  by (simp add: calculateYAxisTicks_def step_100_5 tickLoop_continue tickLoop_exit
      extraTick_def lastTick_def)


section \<open>The Y-axis domain on finite numbers\<close>

lemma scan_fold_from:
  "fold (\<lambda>item. fold (\<lambda>key (mn, mx).
           let v = numberOrZero (item key) in (Math_min mn v, Math_max mx v)) dataKeys) data acc =
   fold (\<lambda>v (mn, mx). (Math_min mn v, Math_max mx v)) (scannedValues data dataKeys) acc"
proof (induction data arbitrary: acc)
  case Nil
  show ?case by (simp add: scannedValues_def)
next
  case (Cons item data)
  have "fold (\<lambda>key (mn, mx). let v = numberOrZero (item key) in (Math_min mn v, Math_max mx v))
          dataKeys acc =
        fold (\<lambda>v (mn, mx). (Math_min mn v, Math_max mx v))
          (map (\<lambda>key. numberOrZero (item key)) dataKeys) acc"
    by (simp add: fold_map comp_def Let_def)
  then show ?case
    using Cons.IH by (simp add: scannedValues_def)
qed

lemma scanRange_fold:
  "scanRange data dataKeys =
     fold (\<lambda>v (mn, mx). (Math_min mn v, Math_max mx v)) (scannedValues data dataKeys) (PInf, NInf)"
  by (simp only: scanRange_def scan_fold_from)

lemma fold_minmax_Fin:
  "fold (\<lambda>v (mn, mx). (Math_min mn v, Math_max mx v)) (map Fin xs) (Fin a, Fin b) =
     (Fin (fold min xs a), Fin (fold max xs b))"
proof (induction xs arbitrary: a b)
  case Nil
  show ?case by simp
next
  case (Cons x xs)
  have "Math_min (Fin a) (Fin x) = Fin (min x a)" "Math_max (Fin b) (Fin x) = Fin (max x b)"
    by (simp_all add: min_def max_def)
  then show ?case
    using Cons.IH by simp
qed

lemma scanRange_Fin:
  assumes "scannedValues data dataKeys = map Fin xs" and "xs \<noteq> []"
  shows "scanRange data dataKeys = (Fin (Min (set xs)), Fin (Max (set xs)))"
proof -
  obtain y ys where xs: "xs = y # ys"
    using assms(2) by (cases xs) auto
  have "scanRange data dataKeys =
      fold (\<lambda>v (mn, mx). (Math_min mn v, Math_max mx v)) (map Fin ys) (Fin y, Fin y)"
    by (simp add: scanRange_fold assms(1) xs)
  also have "\<dots> = (Fin (fold min ys y), Fin (fold max ys y))"
    by (rule fold_minmax_Fin)
  also have "\<dots> = (Fin (Min (set xs)), Fin (Max (set xs)))"
    using Min.set_eq_fold [of y ys] Max.set_eq_fold [of y ys] by (simp add: xs)
  finally show ?thesis .
qed

lemma scannedValues_Nil_iff: "scannedValues data dataKeys = [] \<longleftrightarrow> data = [] \<or> dataKeys = []"
  by (cases data) (auto simp: scannedValues_def)

lemma scanRange_empty:
  assumes "data = [] \<or> dataKeys = []"
  shows "scanRange data dataKeys = (PInf, NInf)"
  using assms scannedValues_Nil_iff [of data dataKeys] by (simp add: scanRange_fold)







lemma calculateNiceYDomain_Fin:
  assumes "scannedValues data dataKeys = map Fin xs"
  shows "calculateNiceYDomain data dataKeys (Some padding) =
     (if data = [] \<or> dataKeys = [] then (Fin 0, Fin 100)
      else niceDomain (Fin (Min (set xs))) (Fin (Max (set xs))) padding)"
proof (cases "data = [] \<or> dataKeys = []")
  case True
  then show ?thesis
    by (simp add: calculateNiceYDomain_def scanRange_empty)
next
  case False
  then have "xs \<noteq> []"
    using assms scannedValues_Nil_iff [of data dataKeys] by auto
  then show ?thesis
    using False by (simp add: calculateNiceYDomain_def scanRange_Fin [OF assms])
qed

lemma calculateNiceYDomain_default:
  "calculateNiceYDomain data dataKeys None = calculateNiceYDomain data dataKeys (Some (Fin 0.1))"
  by (simp add: calculateNiceYDomain_def)

lemma calculateNiceYDomain_arg:
  assumes "scannedValues data dataKeys = map Fin xs"
  shows "calculateNiceYDomain data dataKeys padding_arg =
     (if data = [] \<or> dataKeys = [] then (Fin 0, Fin 100)
      else niceDomain (Fin (Min (set xs))) (Fin (Max (set xs)))
             (case padding_arg of None \<Rightarrow> Fin 0.1 | Some p \<Rightarrow> p))"
  using calculateNiceYDomain_Fin [OF assms] calculateNiceYDomain_default [of data dataKeys]
  by (cases padding_arg) simp_all


lemma scanned_0_85:
  "scannedValues [[''a'' \<mapsto> Num (Fin 0)], [''b'' \<mapsto> Num (Fin 3), ''a'' \<mapsto> Str ''n/a'']] [''a'', ''b'']
     = map Fin [0, 0, 0, 3]"
  by (simp add: scannedValues_def numberOrZero_def)

section \<open>The percentage normalizer on finite numbers\<close>

lemma numberOr0_Num_Fin [simp]: "numberOr0 str2num (Some (Num (Fin x))) = Fin x"
  by (simp add: numberOr0_def Number_def)

lemma numberOr0_missing [simp]: "numberOr0 str2num None = Fin 0"
  by (simp add: numberOr0_def Number_def)


lemma finiteAt_value:
  assumes "finiteAt str2num dataKeys item" and "key \<in> set dataKeys"
  shows "numberOr0 str2num (item key) = Fin (valueAt str2num item key)"
  using assms by (auto simp: finiteAt_def valueAt_def)

lemma foldl_add_Fin:
  assumes "finiteAt str2num dataKeys item"
  shows "foldl (\<lambda>sum key. js_add sum (numberOr0 str2num (item key))) (Fin a) dataKeys =
         Fin (a + (\<Sum>key\<leftarrow>dataKeys. valueAt str2num item key))"
  using assms
proof (induction dataKeys arbitrary: a)
  case Nil
  show ?case by simp
next
  case (Cons k ks)
  have k: "numberOr0 str2num (item k) = Fin (valueAt str2num item k)"
    using Cons.prems finiteAt_value by (metis list.set_intros(1))
  have "finiteAt str2num ks item"
    using Cons.prems by (simp add: finiteAt_def)
  then show ?case
    using Cons.IH [of "a + valueAt str2num item k"] by (simp add: k algebra_simps)
qed

lemma total_Fin:
  assumes "finiteAt str2num dataKeys item"
  shows "total str2num item dataKeys = Fin (\<Sum>key\<leftarrow>dataKeys. valueAt str2num item key)"
  using foldl_add_Fin [OF assms, of 0] by (simp add: total_def)

lemma fold_upd:
  "fold (\<lambda>key newItem. newItem(key \<mapsto> g key)) dataKeys item =
     (\<lambda>key. if key \<in> set dataKeys then Some (g key) else item key)"
proof (induction dataKeys arbitrary: item)
  case Nil
  show ?case by simp
next
  case (Cons k ks)
  have "fold (\<lambda>key newItem. newItem(key \<mapsto> g key)) (k # ks) item =
      fold (\<lambda>key newItem. newItem(key \<mapsto> g key)) ks (item(k \<mapsto> g k))"
    by simp
  also have "\<dots> = (\<lambda>key. if key \<in> set ks then Some (g key) else (item(k \<mapsto> g k)) key)"
    by (rule Cons.IH)
  also have "\<dots> = (\<lambda>key. if key \<in> set (k # ks) then Some (g key) else item key)"
    by (auto simp: fun_eq_iff)
  finally show ?case .
qed


lemma normalizeItem_Fin:
  assumes "finiteAt str2num dataKeys item"
  shows "normalizeItem str2num dataKeys item = normalizeToPercentage_spec str2num dataKeys item"
proof -
  let ?tot = "\<Sum>key\<leftarrow>dataKeys. valueAt str2num item key"
  show ?thesis
  proof (cases "0 < ?tot")
    case False
    then show ?thesis
      by (simp add: normalizeItem_def normalizeToPercentage_spec_def total_Fin [OF assms] Let_def)
  next
    case True
    have "normalizeItem str2num dataKeys item =
        (\<lambda>key. if key \<in> set dataKeys
                then Some (Num (js_mul (js_div (numberOr0 str2num (item key)) (Fin ?tot)) (Fin 100)))
                else item key)"
      using True by (simp add: normalizeItem_def total_Fin [OF assms] Let_def fold_upd)
    also have "\<dots> = (\<lambda>key. if key \<in> set dataKeys
                then Some (Num (Fin (valueAt str2num item key / ?tot * 100)))
                else item key)"
      using True finiteAt_value [OF assms] by (auto simp: fun_eq_iff)
    finally show ?thesis
      using True by (simp add: normalizeToPercentage_spec_def Let_def)
  qed
qed

lemma spec_unchanged:
  assumes "\<not> 0 < (\<Sum>key\<leftarrow>dataKeys. valueAt str2num item key)"
  shows "normalizeToPercentage_spec str2num dataKeys item = item"
  using assms by (simp add: normalizeToPercentage_spec_def)

lemma spec_at_key:
  assumes "0 < (\<Sum>key\<leftarrow>dataKeys. valueAt str2num item key)" and "key \<in> set dataKeys"
  shows "normalizeToPercentage_spec str2num dataKeys item key =
     Some (Num (Fin (valueAt str2num item key / (\<Sum>key\<leftarrow>dataKeys. valueAt str2num item key) * 100)))"
  using assms by (simp add: normalizeToPercentage_spec_def)

lemma spec_other_key:
  assumes "key \<notin> set dataKeys"
  shows "normalizeToPercentage_spec str2num dataKeys item key = item key"
  using assms by (simp add: normalizeToPercentage_spec_def Let_def)

lemma spec_finiteAt:
  assumes "finiteAt str2num dataKeys item"
  shows "finiteAt str2num dataKeys (normalizeToPercentage_spec str2num dataKeys item)"
proof (cases "0 < (\<Sum>key\<leftarrow>dataKeys. valueAt str2num item key)")
  case True
  then show ?thesis
    by (simp add: finiteAt_def spec_at_key)
next
  case False
  then show ?thesis
    using assms by (simp add: spec_unchanged)
qed

lemma spec_valueAt:
  assumes "0 < (\<Sum>key\<leftarrow>dataKeys. valueAt str2num item key)" and "key \<in> set dataKeys"
  shows "valueAt str2num (normalizeToPercentage_spec str2num dataKeys item) key =
     valueAt str2num item key / (\<Sum>key\<leftarrow>dataKeys. valueAt str2num item key) * 100"
  using assms by (simp add: valueAt_def spec_at_key)

lemma spec_total:
  assumes "0 < (\<Sum>key\<leftarrow>dataKeys. valueAt str2num item key)"
  shows "(\<Sum>key\<leftarrow>dataKeys. valueAt str2num (normalizeToPercentage_spec str2num dataKeys item) key) = 100"
proof -
  let ?tot = "\<Sum>key\<leftarrow>dataKeys. valueAt str2num item key"
  have "map (\<lambda>key. valueAt str2num (normalizeToPercentage_spec str2num dataKeys item) key) dataKeys =
      map (\<lambda>key. valueAt str2num item key * (100 / ?tot)) dataKeys"
    using spec_valueAt [OF assms] by simp
  then have "(\<Sum>key\<leftarrow>dataKeys. valueAt str2num (normalizeToPercentage_spec str2num dataKeys item) key) =
      (\<Sum>key\<leftarrow>dataKeys. valueAt str2num item key * (100 / ?tot))"
    by (simp only:)
  also have "\<dots> = ?tot * (100 / ?tot)"
    by (rule sum_list_mult_const)
  also have "\<dots> = 100"
    using assms by simp
  finally show ?thesis .
qed

lemma spec_idempotent:
  "normalizeToPercentage_spec str2num dataKeys (normalizeToPercentage_spec str2num dataKeys item) =
   normalizeToPercentage_spec str2num dataKeys item"
proof (cases "0 < (\<Sum>key\<leftarrow>dataKeys. valueAt str2num item key)")
  case False
  then show ?thesis
    by (simp add: spec_unchanged)
next
  case True
  let ?new = "normalizeToPercentage_spec str2num dataKeys item"
  have tot: "(\<Sum>key\<leftarrow>dataKeys. valueAt str2num ?new key) = 100"
    using spec_total [OF True] .
  have "normalizeToPercentage_spec str2num dataKeys ?new key = ?new key" for key
  proof (cases "key \<in> set dataKeys")
    case False
    then show ?thesis
      by (simp add: spec_other_key)
  next
    case k: True
    have "normalizeToPercentage_spec str2num dataKeys ?new key =
        Some (Num (Fin (valueAt str2num ?new key / 100 * 100)))"
      using spec_at_key [where item = ?new and key = key and dataKeys = dataKeys and str2num = str2num]
        k tot by simp
    also have "\<dots> = Some (Num (Fin (valueAt str2num ?new key)))"
      by simp
    also have "\<dots> = ?new key"
      using spec_valueAt [OF True k] spec_at_key [OF True k] by simp
    finally show ?thesis .
  qed
  then show ?thesis
    by (rule ext)
qed

lemma normalizedData_map:
  assumes "\<forall>item\<in>set data. finiteAt str2num dataKeys item"
  shows "normalizedData str2num StackedExpanded data dataKeys =
         map (normalizeToPercentage_spec str2num dataKeys) data"
  using assms by (simp add: normalizedData_def normalizeItem_Fin)

section \<open>Claims\<close>







text \<open>
  C3 (as amended). \<open>getNiceStepSize\<close> applied to range 100 and 5 target steps
  returns 20, not 50: the raw step is \<open>100 / 5 = 20\<close> (not 25), its magnitude is
  10, the normalized step is 2, which selects the nice step 2, and
  \<open>2 * 10 = 20\<close>.
\<close>

theorem getNiceStepSize_100_5:
  "rawStep (Fin 100) (Fin 5) = Fin 20 \<and>
   magnitude (Fin 20) = Fin 10 \<and>
   normalizedStep (Fin 20) = Fin 2 \<and>
   niceStep (Fin 2) = Fin 2 \<and>
   getNiceStepSize (Fin 100) (Fin 5) = Fin 20"
proof -
  have m: "magnitude (Fin 20) = Fin 10"
    using magnitude_between [of 1 20] by simp
  have r: "rawStep (Fin 100) (Fin 5) = Fin 20"
    by (simp add: rawStep_def)
  have n: "normalizedStep (Fin 20) = Fin 2"
    by (simp add: normalizedStep_def m)
  have s: "niceStep (Fin 2) = Fin 2"
    by (simp add: niceStep_def)
  show ?thesis
    by (simp add: getNiceStepSize_def r m n s)
qed

text \<open>
  C3 (as stated) fails: the value returned for range 100 and 5 target steps is
  not 50, and the raw step is not 25.
\<close>

theorem getNiceStepSize_100_5_not_50:
  "getNiceStepSize (Fin 100) (Fin 5) \<noteq> Fin 50 \<and> rawStep (Fin 100) (Fin 5) \<noteq> Fin 25"
proof -
  have m: "magnitude (Fin 20) = Fin 10"
    using magnitude_between [of 1 20] by simp
  have r: "rawStep (Fin 100) (Fin 5) = Fin 20"
    by (simp add: rawStep_def)
  have "getNiceStepSize (Fin 100) (Fin 5) = Fin 20"
    by (simp add: getNiceStepSize_def r m normalizedStep_def niceStep_def)
  then show ?thesis
    using r by simp
qed











text \<open>
  C8. In exact arithmetic, normalizing a normalized sequence returns it
  unchanged. And for a sequence in which the values of every point at the keys
  sum to 100, normalizing returns the same values at the keys; it returns the
  very same sequence when these values are all stored as numbers.
\<close>

theorem normalizedData_fixed_point:
  assumes "\<forall>item\<in>set data. finiteAt str2num dataKeys item"
  shows "normalizedData str2num StackedExpanded
           (normalizedData str2num StackedExpanded data dataKeys) dataKeys =
         normalizedData str2num StackedExpanded data dataKeys \<and>
         ((\<forall>item\<in>set data. total str2num item dataKeys = Fin 100) \<longrightarrow>
            map (\<lambda>item. map (valueAt str2num item) dataKeys)
                (normalizedData str2num StackedExpanded data dataKeys) =
            map (\<lambda>item. map (valueAt str2num item) dataKeys) data \<and>
            ((\<forall>item\<in>set data. \<forall>key\<in>set dataKeys. \<exists>v. item key = Some (Num (Fin v))) \<longrightarrow>
               normalizedData str2num StackedExpanded data dataKeys = data))"
proof (intro conjI impI)
  let ?N = "normalizeToPercentage_spec str2num dataKeys"
  have eq: "normalizedData str2num StackedExpanded data dataKeys = map ?N data"
    using assms by (rule normalizedData_map)
  have "\<forall>item\<in>set (map ?N data). finiteAt str2num dataKeys item"
    using assms by (simp add: spec_finiteAt)
  then have "normalizedData str2num StackedExpanded (map ?N data) dataKeys = map ?N (map ?N data)"
    by (rule normalizedData_map)
  then show "normalizedData str2num StackedExpanded
           (normalizedData str2num StackedExpanded data dataKeys) dataKeys =
         normalizedData str2num StackedExpanded data dataKeys"
    by (simp add: eq spec_idempotent)
  assume sum: "\<forall>item\<in>set data. total str2num item dataKeys = Fin 100"
  have tot: "(\<Sum>key\<leftarrow>dataKeys. valueAt str2num item key) = 100" if "item \<in> set data" for item
    using that sum assms total_Fin [where item = item and dataKeys = dataKeys and str2num = str2num]
    by auto
  have val: "valueAt str2num (?N item) key = valueAt str2num item key"
    if "item \<in> set data" and "key \<in> set dataKeys" for item key
    using spec_valueAt [where item = item and key = key and dataKeys = dataKeys and str2num = str2num]
      tot [OF that(1)] that(2) by simp
  show "map (\<lambda>item. map (valueAt str2num item) dataKeys)
          (normalizedData str2num StackedExpanded data dataKeys) =
        map (\<lambda>item. map (valueAt str2num item) dataKeys) data"
    using val by (simp add: eq)
  assume num: "\<forall>item\<in>set data. \<forall>key\<in>set dataKeys. \<exists>v. item key = Some (Num (Fin v))"
  have "?N item = item" if i: "item \<in> set data" for item
  proof (rule ext)
    fix key
    show "?N item key = item key"
    proof (cases "key \<in> set dataKeys")
      case False
      then show ?thesis by (simp add: spec_other_key)
    next
      case True
      then obtain v where v: "item key = Some (Num (Fin v))"
        using num i by blast
      then have "valueAt str2num item key = v"
        by (simp add: valueAt_def)
      then show ?thesis
        using spec_at_key [where item = item and key = key and dataKeys = dataKeys and str2num = str2num]
          tot [OF i] True v by simp
    qed
  qed
  then show "normalizedData str2num StackedExpanded data dataKeys = data"
    by (simp add: eq map_idI)
qed

text \<open>
  C8 on a point with the values 25 and 75, which sum to 100.
\<close>

theorem normalizedData_fixed_point_witness:
  "normalizedData (\<lambda>_. NaN) StackedExpanded [[''x'' \<mapsto> Num (Fin 25), ''y'' \<mapsto> Num (Fin 75)]]
     [''x'', ''y''] =
   [[''x'' \<mapsto> Num (Fin 25), ''y'' \<mapsto> Num (Fin 75)]]"
proof -
  let ?p = "[''x'' \<mapsto> Num (Fin 25), ''y'' \<mapsto> Num (Fin 75)]"
  have fin: "\<forall>item\<in>set [?p]. finiteAt (\<lambda>_. NaN) [''x'', ''y''] item"
    by (simp add: finiteAt_def)
  have sum: "\<forall>item\<in>set [?p]. total (\<lambda>_. NaN) item [''x'', ''y''] = Fin 100"
    by (simp add: total_def)
  have num: "\<forall>item\<in>set [?p]. \<forall>key\<in>set [''x'', ''y'']. \<exists>v. item key = Some (Num (Fin v))"
    by simp
  show ?thesis
    using normalizedData_fixed_point [OF fin] sum num by blast
qed

text \<open>
  C9. In the component, a \<open>yAxisConfig.padding\<close> of 0 resolves to 0.15 and a
  \<open>yAxisConfig.tickCount\<close> of 0 resolves to 6, so that the domain and the ticks
  are those of a configuration without the option; and whatever the
  configuration, neither resolved value is ever zero.
\<close>

theorem zero_config_ignored:
  "resolvedPadding (Some (cfg\<lparr>cfg_padding := Some (Fin 0)\<rparr>)) = Fin 0.15 \<and>
   resolvedTickCount (Some (cfg\<lparr>cfg_tickCount := Some (Fin 0)\<rparr>)) = Fin 6 \<and>
   yDomain (Some (cfg\<lparr>cfg_padding := Some (Fin 0)\<rparr>)) data dataKeys =
     yDomain (Some (cfg\<lparr>cfg_padding := None\<rparr>)) data dataKeys \<and>
   yAxisTicks (Some (cfg\<lparr>cfg_tickCount := Some (Fin 0)\<rparr>)) data dataKeys =
     yAxisTicks (Some (cfg\<lparr>cfg_tickCount := None\<rparr>)) data dataKeys \<and>
   resolvedPadding anyConfig \<noteq> Fin 0 \<and> resolvedTickCount anyConfig \<noteq> Fin 0"
proof -
  have nz: "js_or x (Fin d) \<noteq> Fin 0" if "d \<noteq> 0" for x d
    using that by (cases x) auto
  have p0: "resolvedPadding (Some (cfg\<lparr>cfg_padding := Some (Fin 0)\<rparr>)) = Fin 0.15"
    and pn: "resolvedPadding (Some (cfg\<lparr>cfg_padding := None\<rparr>)) = Fin 0.15"
    by (simp_all add: resolvedPadding_def)
  have t0: "resolvedTickCount (Some (cfg\<lparr>cfg_tickCount := Some (Fin 0)\<rparr>)) = Fin 6"
    and tn: "resolvedTickCount (Some (cfg\<lparr>cfg_tickCount := None\<rparr>)) = Fin 6"
    by (simp_all add: resolvedTickCount_def)
  have d: "yDomain (Some (cfg\<lparr>cfg_padding := Some (Fin 0)\<rparr>)) data dataKeys =
      yDomain (Some (cfg\<lparr>cfg_padding := None\<rparr>)) data dataKeys"
    unfolding yDomain_def p0 pn by simp
  have "yDomain (Some (cfg\<lparr>cfg_tickCount := t\<rparr>)) data dataKeys = yDomain (Some cfg) data dataKeys" for t
    by (simp add: yDomain_def resolvedPadding_def split: option.split domainConfig.split)
  then have k: "yAxisTicks (Some (cfg\<lparr>cfg_tickCount := Some (Fin 0)\<rparr>)) data dataKeys =
      yAxisTicks (Some (cfg\<lparr>cfg_tickCount := None\<rparr>)) data dataKeys"
    unfolding yAxisTicks_def t0 tn by simp
  have "resolvedPadding anyConfig \<noteq> Fin 0" "resolvedTickCount anyConfig \<noteq> Fin 0"
    using nz by (simp_all add: resolvedPadding_def resolvedTickCount_def)
  with p0 t0 d k show ?thesis
    by blast
qed

text \<open>
  C10 (as amended). When every scanned value is finite, the test
  \<open>min === Infinity || max === -Infinity\<close> of \<open>calculateNiceYDomain\<close> holds
  exactly when no value is scanned, that is for an empty data array or an empty
  key list; the fallback \<open>[0, 100]\<close> is returned then, and otherwise the result is
  the rounded padded range of the scanned minimum and maximum (missing and
  non-numeric values counting as 0), which can itself be \<open>[0, 100]\<close>.
\<close>

theorem fallback_iff_nothing_scanned:
  assumes "scannedValues data dataKeys = map Fin xs"
  shows "(fst (scanRange data dataKeys) = PInf \<or> snd (scanRange data dataKeys) = NInf
            \<longleftrightarrow> data = [] \<or> dataKeys = []) \<and>
         calculateNiceYDomain data dataKeys padding_arg =
           (if data = [] \<or> dataKeys = [] then (Fin 0, Fin 100)
            else niceDomain (Fin (Min (set xs))) (Fin (Max (set xs)))
                   (case padding_arg of None \<Rightarrow> Fin 0.1 | Some p \<Rightarrow> p))"
proof -
  have "fst (scanRange data dataKeys) = PInf \<or> snd (scanRange data dataKeys) = NInf
      \<longleftrightarrow> data = [] \<or> dataKeys = []"
  proof (cases "data = [] \<or> dataKeys = []")
    case True
    then show ?thesis
      by (simp add: scanRange_empty)
  next
    case False
    then have "xs \<noteq> []"
      using assms scannedValues_Nil_iff [of data dataKeys] by auto
    then show ?thesis
      using False by (simp add: scanRange_Fin [OF assms])
  qed
  then show ?thesis
    using calculateNiceYDomain_arg [OF assms] by simp
qed

text \<open>
  C10 on two points with a missing and a non-numeric value: the scanned values
  are 0, 0, 0 and 3, and the domain is computed from their minimum and maximum.
\<close>

theorem fallback_iff_nothing_scanned_witness:
  "calculateNiceYDomain [[''a'' \<mapsto> Num (Fin 0)], [''b'' \<mapsto> Num (Fin 3), ''a'' \<mapsto> Str ''n/a'']]
      [''a'', ''b''] None
     = niceDomain (Fin (Min (set [0, 0, 0, 3]))) (Fin (Max (set [0, 0, 0, 3]))) (Fin 0.1)"
  using fallback_iff_nothing_scanned [OF scanned_0_85, of None] by simp

text \<open>
  C10 (as stated) fails: \<open>[0, 100]\<close> is also returned for the scanned values 0
  and 85 with padding 0.15 (by rounding), and for a scanned value \<open>Infinity\<close>
  (which equals the sentinel, so that the fallback is taken).
\<close>

theorem fallback_by_value:
  "calculateNiceYDomain [[''a'' \<mapsto> Num (Fin 0)], [''a'' \<mapsto> Num (Fin 85)]] [''a''] (Some (Fin 0.15))
     = (Fin 0, Fin 100) \<and>
   calculateNiceYDomain [[''a'' \<mapsto> Num PInf]] [''a''] (Some (Fin 0.15)) = (Fin 0, Fin 100)"
  by (simp add: calculateNiceYDomain_def scanRange_def numberOrZero_def niceDomain_def
      paddedMin_def paddedMax_def getRoundingFactor_def Let_def)

end
